theory Spec2Isabelle
  imports Main "HOL-Library.AList" "HOL-Library.Sublist"
begin

section \<open>Snowflake object types (connectors/snowflake/dao/enums.py)\<close>

text \<open>
  \<^verbatim>\<open>class ObjectType(str, Enum): EXTERNAL_AGENT = "EXTERNAL AGENT"\<close>.
  The enumeration has one member. Because the class mixes in \<^verbatim>\<open>str\<close>, a member
  is a string and compares equal to the plain string holding its value.
\<close>

datatype ObjectType = EXTERNAL_AGENT

fun ObjectType_value :: "ObjectType \<Rightarrow> string" where
  "ObjectType_value EXTERNAL_AGENT = ''EXTERNAL AGENT''"

text \<open>
  The argument \<^verbatim>\<open>key\<close> of \<^verbatim>\<open>is_valid_object\<close> is not typed in the source, so it
  ranges over Python values: \<^verbatim>\<open>None\<close>, booleans, integers, strings and the members of
  the enumeration itself.
\<close>

datatype pyvalue =
    PyNone
  | PyBool bool
  | PyInt int
  | PyStr string
  | PyMember ObjectType

text \<open>
  Python's \<^verbatim>\<open>==\<close> on these values. A member of a \<^verbatim>\<open>str\<close>-mixin enumeration
  is compared by \<^verbatim>\<open>str.__eq__\<close>, that is by its value; \<^verbatim>\<open>True == 1\<close> and
  \<^verbatim>\<open>False == 0\<close> hold in Python; a string never equals \<^verbatim>\<open>None\<close> or a number.
\<close>

fun str_of :: "pyvalue \<Rightarrow> string option" where
  "str_of (PyStr s) = Some s"
| "str_of (PyMember m) = Some (ObjectType_value m)"
| "str_of _ = None"

fun int_of :: "pyvalue \<Rightarrow> int option" where
  "int_of (PyInt i) = Some i"
| "int_of (PyBool b) = Some (if b then 1 else 0)"
| "int_of _ = None"

definition py_eq :: "pyvalue \<Rightarrow> pyvalue \<Rightarrow> bool" where
  "py_eq a b =
     (case (str_of a, str_of b) of
        (Some s, Some t) \<Rightarrow> s = t
      | (Some s, None) \<Rightarrow> False
      | (None, Some t) \<Rightarrow> False
      | (None, None) \<Rightarrow>
          (case (int_of a, int_of b) of
             (Some i, Some j) \<Rightarrow> i = j
           | (Some i, None) \<Rightarrow> False
           | (None, Some j) \<Rightarrow> False
           | (None, None) \<Rightarrow> True))"

text \<open>\<^verbatim>\<open>cls.__members__\<close>: the mapping from member names to members, in definition order.\<close>

definition ObjectType_members :: "(string \<times> ObjectType) list" where
  "ObjectType_members = [(''EXTERNAL_AGENT'', EXTERNAL_AGENT)]"

text \<open>
  \<^verbatim>\<open>key in view\<close> on the values view of a mapping: a linear scan that stops at the
  first element equal to the key.
\<close>

fun py_in :: "pyvalue \<Rightarrow> pyvalue list \<Rightarrow> bool" where
  "py_in key [] = False"
| "py_in key (v # vs) = (if py_eq v key then True else py_in key vs)"

definition is_valid_object :: "pyvalue \<Rightarrow> bool" where
  "is_valid_object key = py_in key (map (\<lambda>(n, m). PyMember m) ObjectType_members)"

section \<open>Tracing session (core/trulens/experimental/otel_tracing/core/session.py)\<close>

text \<open>
  Python names that begin with an underscore lose it here (\<^verbatim>\<open>_set_up_tracer_provider\<close>
  is \<open>set_up_tracer_provider\<close>): an Isabelle name starts with a letter.
\<close>

subsection \<open>Exceptions\<close>

datatype error =
    ValueError string
  | ImportError string
  | OtherException string

subsection \<open>Objects and the process state\<close>

text \<open>
  The attributes of an OpenTelemetry \<^verbatim>\<open>Resource\<close>, as key and value strings.
  \<^verbatim>\<open>Resource.create(attrs)\<close> is taken to return a resource with the attributes it is
  given (the SDK adds its own \<^verbatim>\<open>telemetry.sdk.*\<close> entries, which no function here reads).
\<close>

type_synonym resource = "(string \<times> string) list"

definition Resource_create :: "(string \<times> string) list \<Rightarrow> resource" where
  "Resource_create attrs = attrs"

definition TRULENS_SERVICE_NAME :: string where
  "TRULENS_SERVICE_NAME = ''trulens''"

datatype DBConnector = DBConnector string

text \<open>
  The value passed as \<^verbatim>\<open>exporter\<close>. Its annotation is \<^verbatim>\<open>Optional[SpanExporter]\<close>,
  which Python does not enforce, so besides \<^verbatim>\<open>None\<close> and the default exporter built at
  line 58 it may be any object: the function looks at its class (for the log line),
  at its truth value (\<^verbatim>\<open>if not exporter\<close>, \<^verbatim>\<open>if exporter and ...\<close>) and at
  whether it is an instance of \<^verbatim>\<open>SpanExporter\<close>.
\<close>

datatype pyobject =
    NoneObject
  | TruLensOTELSpanExporter DBConnector
  | Instance string bool bool

fun class_name :: "pyobject \<Rightarrow> string" where
  "class_name NoneObject = ''NoneType''"
| "class_name (TruLensOTELSpanExporter c) = ''TruLensOTELSpanExporter''"
| "class_name (Instance cls is_exporter truth) = cls"

fun py_bool :: "pyobject \<Rightarrow> bool" where
  "py_bool NoneObject = False"
| "py_bool (TruLensOTELSpanExporter c) = True"
| "py_bool (Instance cls is_exporter truth) = truth"

text \<open>
  \<open>Instance cls is_exporter truth\<close> is an object of class \<open>cls\<close> that is an instance of
  \<^verbatim>\<open>SpanExporter\<close> when \<open>is_exporter\<close> holds and whose truth value is \<open>truth\<close>: the
  empty string is \<open>Instance ''str'' False False\<close>, a dictionary with entries is
  \<open>Instance ''dict'' False True\<close>. The default exporter \<^verbatim>\<open>TruLensOTELSpanExporter\<close> is
  declared in a module that is not among the sources; it is taken to be a
  \<^verbatim>\<open>SpanExporter\<close>, as line 72 uses it, and true like any object without
  \<^verbatim>\<open>__bool__\<close> or \<^verbatim>\<open>__len__\<close>.
\<close>

fun isinstance_SpanExporter :: "pyobject \<Rightarrow> bool" where
  "isinstance_SpanExporter NoneObject = False"
| "isinstance_SpanExporter (TruLensOTELSpanExporter c) = True"
| "isinstance_SpanExporter (Instance cls is_exporter truth) = is_exporter"

text \<open>
  Objects with identity live in a heap, a list indexed by reference; a new object goes
  to the end, so its reference is one no earlier object has. The SDK's
  \<^verbatim>\<open>TracerProvider\<close> holds its resource and its span processors (by reference, in the
  order they were added); a tracer provider of any other class is known by its class
  name only.
\<close>

datatype obj =
    TracerProvider resource "nat list"
  | OtherTracerProvider string
  | BatchSpanProcessor pyobject

text \<open>
  The process: the heap, the global state of the module \<^verbatim>\<open>opentelemetry.trace\<close>
  (of a type \<open>'g\<close> that the functions of this file never look into) and the lines logged.
\<close>

record 'g process =
  heap :: "obj list"
  trace_globals :: 'g
  logged :: "string list"

text \<open>
  \<^verbatim>\<open>opentelemetry.trace\<close> is a library, not part of the sources: its two functions
  that \<^verbatim>\<open>_set_up_tracer_provider\<close> calls are parameters of the model.
\<close>

record 'g trace_module =
  set_tracer_provider :: "nat \<Rightarrow> 'g \<Rightarrow> 'g"
  get_tracer_provider :: "'g \<Rightarrow> nat"

definition new_object :: "obj \<Rightarrow> 'g process \<Rightarrow> nat \<times> 'g process" where
  "new_object ob p = (length (heap p), p\<lparr>heap := heap p @ [ob]\<rparr>)"

definition isinstance_TracerProvider :: "obj list \<Rightarrow> nat \<Rightarrow> bool" where
  "isinstance_TracerProvider h r =
     (if r < length h
      then (case h ! r of TracerProvider res sps \<Rightarrow> True | OtherTracerProvider c \<Rightarrow> False
            | BatchSpanProcessor e \<Rightarrow> False)
      else False)"

subsection \<open>\<^verbatim>\<open>_set_up_tracer_provider\<close> (lines 24 to 32)\<close>

definition set_up_tracer_provider ::
  "'g trace_module \<Rightarrow> 'g process \<Rightarrow> (error + nat) \<times> 'g process" where
  "set_up_tracer_provider trace p =
     (let resource = Resource_create [(''service.name'', TRULENS_SERVICE_NAME)];
          (provider, p1) = new_object (TracerProvider resource []) p;
          p2 = p1\<lparr>trace_globals := set_tracer_provider trace provider (trace_globals p1)\<rparr>;
          global_tracer_provider = get_tracer_provider trace (trace_globals p2)
      in if \<not> isinstance_TracerProvider (heap p2) global_tracer_provider
         then (Inl (ValueError ''Received a TracerProvider of an unexpected type!''), p2)
         else (Inr global_tracer_provider, p2))"

subsection \<open>The OpenTelemetry API's global tracer provider\<close>

text \<open>
  The behaviour of the two library functions in the OpenTelemetry API for Python, used
  wherever a statement speaks of a provider set earlier. The module
  \<^verbatim>\<open>opentelemetry.trace\<close> keeps the global provider in \<^verbatim>\<open>_TRACER_PROVIDER\<close>, initially
  \<^verbatim>\<open>None\<close>, and assigns it through a set-once guard: \<^verbatim>\<open>set_tracer_provider\<close> installs
  its argument only when no provider has been set yet; a later call logs ``Overriding of
  current TracerProvider is not allowed'' and leaves the global as it is.
  \<^verbatim>\<open>get_tracer_provider\<close> returns the global provider, or the module's proxy provider
  while none is set. This is what \<^verbatim>\<open>_set_up_tracer_provider\<close> is written for: it reads
  the global provider back after setting it, checks its class, and returns what it read,
  not the provider it made.
\<close>

record otel_globals =
  TRACER_PROVIDER :: "nat option"
  PROXY_TRACER_PROVIDER :: nat

definition otel_set_tracer_provider :: "nat \<Rightarrow> otel_globals \<Rightarrow> otel_globals" where
  "otel_set_tracer_provider tracer_provider g =
     (case TRACER_PROVIDER g of
        None \<Rightarrow> g\<lparr>TRACER_PROVIDER := Some tracer_provider\<rparr>
      | Some installed \<Rightarrow> g)"

definition otel_get_tracer_provider :: "otel_globals \<Rightarrow> nat" where
  "otel_get_tracer_provider g =
     (case TRACER_PROVIDER g of
        None \<Rightarrow> PROXY_TRACER_PROVIDER g
      | Some installed \<Rightarrow> installed)"

definition opentelemetry_trace :: "otel_globals trace_module" where
  "opentelemetry_trace =
     \<lparr>set_tracer_provider = otel_set_tracer_provider,
      get_tracer_provider = otel_get_tracer_provider\<rparr>"

subsection \<open>The session and \<^verbatim>\<open>_set_up_otel_exporter\<close> (lines 44 to 76)\<close>

datatype Feature = OTEL_TRACING

record TruSession =
  experimental_feature_flags :: "Feature \<Rightarrow> bool option"
  experimental_frozen :: "Feature \<Rightarrow> bool"
  experimental_otel_exporter :: "pyobject option"
  experimental_tracer_provider :: "nat option"
  experimental_otel_span_processor :: "nat option"

text \<open>
  Modelled from the spec: \<^verbatim>\<open>TruSession._experimental_feature\<close> is defined in
  \<^verbatim>\<open>trulens.core.session\<close>, which is not among the sources. The specification speaks
  of one process-wide flag that enables OTEL tracing; the call at line 49 gives the
  flag, the value and \<^verbatim>\<open>freeze\<close>, and the model sets the flag to the value and, with
  \<^verbatim>\<open>freeze\<close>, marks it frozen.
\<close>

definition experimental_feature :: "Feature \<Rightarrow> bool \<Rightarrow> bool \<Rightarrow> TruSession \<Rightarrow> TruSession" where
  "experimental_feature flag val freeze self =
     self\<lparr>experimental_feature_flags := (experimental_feature_flags self)(flag := Some val),
          experimental_frozen := (experimental_frozen self)(flag := (experimental_frozen self flag \<or> freeze))\<rparr>"

text \<open>\<^verbatim>\<open>TracerProvider.add_span_processor\<close>: the provider object is updated in place.\<close>

definition add_span_processor :: "nat \<Rightarrow> nat \<Rightarrow> 'g process \<Rightarrow> 'g process" where
  "add_span_processor provider processor p =
     (if provider < length (heap p)
      then p\<lparr>heap := (heap p)[provider :=
              (case heap p ! provider of
                 TracerProvider res sps \<Rightarrow> TracerProvider res (sps @ [processor])
               | OtherTracerProvider c \<Rightarrow> OtherTracerProvider c
               | BatchSpanProcessor e \<Rightarrow> BatchSpanProcessor e)]\<rparr>
      else p)"

definition logger_info :: "string \<Rightarrow> 'g process \<Rightarrow> 'g process" where
  "logger_info msg p = p\<lparr>logged := logged p @ [msg]\<rparr>"

text \<open>
  The line logged at lines 53 to 55. The check mark that \<^verbatim>\<open>text_utils.UNICODE_CHECK\<close>
  puts in front of it is left out, and the class is named as \<open>class_name\<close> gives it.
\<close>

definition exporter_set_message :: "pyobject \<Rightarrow> string" where
  "exporter_set_message exporter = ''OpenTelemetry exporter set: '' @ class_name exporter"

definition set_up_otel_exporter ::
  "'g trace_module \<Rightarrow> TruSession \<Rightarrow> DBConnector \<Rightarrow> pyobject \<Rightarrow> 'g process
     \<Rightarrow> (error + unit) \<times> TruSession \<times> 'g process" where
  "set_up_otel_exporter trace self connector exporter p =
     (let self1 = experimental_feature OTEL_TRACING True True self;
          p1 = logger_info (exporter_set_message exporter) p;
          exporter1 = (if \<not> py_bool exporter then TruLensOTELSpanExporter connector else exporter);
          self2 = self1\<lparr>experimental_otel_exporter := Some exporter1\<rparr>
      in case set_up_tracer_provider trace p1 of
           (Inl e, p2) \<Rightarrow> (Inl e, self2, p2)
         | (Inr tracer_provider, p2) \<Rightarrow>
             (let self3 = self2\<lparr>experimental_tracer_provider := Some tracer_provider\<rparr>
              in if py_bool exporter1 \<and> \<not> isinstance_SpanExporter exporter1
                 then (Inl (ValueError ''Provided exporter must be an OpenTelemetry SpanExporter''),
                       self3, p2)
                 else (let (processor, p3) = new_object (BatchSpanProcessor exporter1) p2;
                           self4 = self3\<lparr>experimental_otel_span_processor := Some processor\<rparr>;
                           p4 = add_span_processor tracer_provider processor p3
                       in (Inr (), self4, p4))))"

subsection \<open>Imports, modules and registrations\<close>

text \<open>
  What importing a module does in the running interpreter: it succeeds, it raises
  \<^verbatim>\<open>ImportError\<close> (or its subclass \<^verbatim>\<open>ModuleNotFoundError\<close>), or the module's own
  code raises something else while it loads.
\<close>

datatype import_outcome = Imported | RaisesImportError | RaisesOther string

datatype SpanType = UNKNOWN

datatype CostComputer = CortexCostComputer | OpenAICostComputer

text \<open>
  What \<^verbatim>\<open>python_utils.safer_getattr(module, name)\<close> gives for a name of \<^verbatim>\<open>dir(module)\<close>:
  \<^verbatim>\<open>None\<close>, a class (its qualified name and the names of its attributes) or an object
  that is not a class (the names of its attributes).
\<close>

datatype module_attr =
    AttrNone
  | AttrType string "string list"
  | AttrObject "string list"

text \<open>
  What \<^verbatim>\<open>_track_costs\<close> passes to \<^verbatim>\<open>instrument_method\<close>: the target class, the name
  of the method, the span type, the extractor given as \<^verbatim>\<open>full_scoped_attributes\<close>
  (called with the return value, the exception, the positional and the keyword
  arguments; it returns a dictionary or raises) and \<^verbatim>\<open>must_be_first_wrapper\<close>.
\<close>

record 'v registration =
  target :: string
  method_name :: string
  span_type :: SpanType
  full_scoped_attributes ::
    "'v \<Rightarrow> 'v \<Rightarrow> 'v list \<Rightarrow> (string \<times> 'v) list \<Rightarrow> error + (string \<times> 'v) list"
  must_be_first_wrapper :: bool

text \<open>
  The environment of \<^verbatim>\<open>_track_costs\<close>: the outcome of importing each module, the
  contents of each module in the order of \<^verbatim>\<open>dir\<close>, the constant \<^verbatim>\<open>BASE_SCOPE\<close> of
  \<^verbatim>\<open>trulens.otel.semconv.trace\<close>, the providers' \<^verbatim>\<open>handle_response\<close>, which returns
  a dictionary (its items, in order) or raises, and \<^verbatim>\<open>instrument_method\<close> of
  \<^verbatim>\<open>trulens.experimental.otel_tracing.core.instrument\<close>. None of the five is in the
  sources, so all are parameters. \<^verbatim>\<open>instrument_method\<close> acts on the state \<open>'t\<close> of that
  module, whatever it is: a call returns with a new state, or raises and leaves the
  state as it was.
\<close>

record ('v, 't) environment =
  import_result :: "string \<Rightarrow> import_outcome"
  module_dir :: "string \<Rightarrow> (string \<times> module_attr) list"
  BASE_SCOPE :: string
  handle_response :: "CostComputer \<Rightarrow> 'v \<Rightarrow> error + (string \<times> 'v) list"
  instrument_method :: "'v registration \<Rightarrow> 't \<Rightarrow> error + 't"

subsection \<open>\<^verbatim>\<open>_can_import\<close> (lines 35 to 40)\<close>

definition import_module :: "('v, 't) environment \<Rightarrow> string \<Rightarrow> error + unit" where
  "import_module env name =
     (case import_result env name of
        Imported \<Rightarrow> Inr ()
      | RaisesImportError \<Rightarrow> Inl (ImportError name)
      | RaisesOther msg \<Rightarrow> Inl (OtherException msg))"

definition can_import :: "('v, 't) environment \<Rightarrow> string \<Rightarrow> error + bool" where
  "can_import env to_import =
     (case import_module env to_import of
        Inr u \<Rightarrow> Inr True
      | Inl (ImportError msg) \<Rightarrow> Inr False
      | Inl (ValueError msg) \<Rightarrow> Inl (ValueError msg)
      | Inl (OtherException msg) \<Rightarrow> Inl (OtherException msg))"

subsection \<open>\<^verbatim>\<open>_TruSession._track_costs\<close> (lines 78 to 130)\<close>

text \<open>The import statements at the head of a block: the first that raises ends the block.\<close>

fun import_all :: "('v, 't) environment \<Rightarrow> string list \<Rightarrow> error + unit" where
  "import_all env [] = Inr ()"
| "import_all env (name # names) =
     (case import_module env name of
        Inl e \<Rightarrow> Inl e
      | Inr u \<Rightarrow> import_all env names)"

text \<open>
  The extractor passed as \<^verbatim>\<open>full_scoped_attributes\<close>, the same lambda in both blocks but
  for the cost computer:
  \<^verbatim>\<open>lambda ret, exception, *args, **kwargs:
     {cost_attributes_prefix + k: v for k, v in Computer.handle_response(ret).items()}\<close>.
  The comprehension builds a dictionary by inserting the items one after the other;
  inserting a key that is present replaces its value.
\<close>

definition costs_lambda ::
  "('v, 't) environment \<Rightarrow> string \<Rightarrow> CostComputer
     \<Rightarrow> 'v \<Rightarrow> 'v \<Rightarrow> 'v list \<Rightarrow> (string \<times> 'v) list \<Rightarrow> error + (string \<times> 'v) list" where
  "costs_lambda env cost_attributes_prefix computer ret exception args kwargs =
     (case handle_response env computer ret of
        Inl e \<Rightarrow> Inl e
      | Inr items \<Rightarrow>
          Inr (fold (\<lambda>(k, v). AList.update (cost_attributes_prefix @ k) v) items []))"

fun isinstance_type :: "module_attr \<Rightarrow> bool" where
  "isinstance_type (AttrType name attrs) = True"
| "isinstance_type AttrNone = False"
| "isinstance_type (AttrObject attrs) = False"

fun hasattr :: "module_attr \<Rightarrow> string \<Rightarrow> bool" where
  "hasattr (AttrType name attrs) a = (a \<in> set attrs)"
| "hasattr (AttrObject attrs) a = (a \<in> set attrs)"
| "hasattr AttrNone a = False"

fun type_name :: "module_attr \<Rightarrow> string" where
  "type_name (AttrType name attrs) = name"
| "type_name AttrNone = ''NoneType''"
| "type_name (AttrObject attrs) = ''object''"

text \<open>
  The first block (lines 80 to 97): the Cortex provider. Nothing in the function catches
  an exception, so one raised by the probe, by an import of the block or by
  \<^verbatim>\<open>instrument_method\<close> ends the function.
\<close>

definition track_costs_cortex ::
  "('v, 't) environment \<Rightarrow> 't \<Rightarrow> (error + unit) \<times> 't" where
  "track_costs_cortex env table =
     (case can_import env ''trulens.providers.cortex.endpoint'' of
        Inl e \<Rightarrow> (Inl e, table)
      | Inr False \<Rightarrow> (Inr (), table)
      | Inr True \<Rightarrow>
          (case import_all env
                  [''snowflake.cortex._sse_client'',
                   ''trulens.experimental.otel_tracing.core.instrument'',
                   ''trulens.providers.cortex.endpoint''] of
             Inl e \<Rightarrow> (Inl e, table)
           | Inr u \<Rightarrow>
               (let cost_attributes_prefix = BASE_SCOPE env @ ''.costs.''
                in case instrument_method env
                          \<lparr>target = ''SSEClient'',
                           method_name = ''events'',
                           span_type = UNKNOWN,
                           full_scoped_attributes =
                             costs_lambda env cost_attributes_prefix CortexCostComputer,
                           must_be_first_wrapper = True\<rparr>
                          table of
                     Inl e \<Rightarrow> (Inl e, table)
                   | Inr table1 \<Rightarrow> (Inr (), table1))))"

text \<open>The inner loop of the second block (lines 108 to 130), over \<^verbatim>\<open>dir(module)\<close>.\<close>

fun instrument_classes ::
  "('v, 't) environment \<Rightarrow> (string \<times> module_attr) list \<Rightarrow> 't \<Rightarrow> (error + unit) \<times> 't" where
  "instrument_classes env [] table = (Inr (), table)"
| "instrument_classes env ((cls, obj) # rest) table =
     (if obj \<noteq> AttrNone \<and> isinstance_type obj \<and> hasattr obj ''create''
      then (let cost_attributes_prefix = BASE_SCOPE env @ ''.costs.''
            in case instrument_method env
                      \<lparr>target = type_name obj,
                       method_name = ''create'',
                       span_type = UNKNOWN,
                       full_scoped_attributes =
                         costs_lambda env cost_attributes_prefix OpenAICostComputer,
                       must_be_first_wrapper = True\<rparr>
                      table of
                 Inl e \<Rightarrow> (Inl e, table)
               | Inr table1 \<Rightarrow> instrument_classes env rest table1)
      else instrument_classes env rest table)"

text \<open>The outer loop (line 107), over the modules.\<close>

fun instrument_modules ::
  "('v, 't) environment \<Rightarrow> string list \<Rightarrow> 't \<Rightarrow> (error + unit) \<times> 't" where
  "instrument_modules env [] table = (Inr (), table)"
| "instrument_modules env (module # rest) table =
     (case instrument_classes env (module_dir env module) table of
        (Inl e, table1) \<Rightarrow> (Inl e, table1)
      | (Inr u, table1) \<Rightarrow> instrument_modules env rest table1)"

text \<open>The second block (lines 98 to 130): the OpenAI provider.\<close>

definition track_costs_openai ::
  "('v, 't) environment \<Rightarrow> 't \<Rightarrow> (error + unit) \<times> 't" where
  "track_costs_openai env table =
     (case can_import env ''trulens.providers.openai.endpoint'' of
        Inl e \<Rightarrow> (Inl e, table)
      | Inr False \<Rightarrow> (Inr (), table)
      | Inr True \<Rightarrow>
          (case import_all env
                  [''openai'', ''openai.resources'', ''openai.resources.chat'',
                   ''trulens.experimental.otel_tracing.core.instrument'',
                   ''trulens.providers.openai.endpoint''] of
             Inl e \<Rightarrow> (Inl e, table)
           | Inr u \<Rightarrow>
               instrument_modules env
                 [''openai'', ''openai.resources'', ''openai.resources.chat''] table))"

definition track_costs ::
  "('v, 't) environment \<Rightarrow> 't \<Rightarrow> (error + unit) \<times> 't" where
  "track_costs env table =
     (case track_costs_cortex env table of
        (Inl e, table1) \<Rightarrow> (Inl e, table1)
      | (Inr u, table1) \<Rightarrow> track_costs_openai env table1)"

section \<open>Instrumentation wrapper and name resolver\<close>

text \<open>
  Modelled from the spec: \<^verbatim>\<open>instrument\<close> and \<^verbatim>\<open>_get_func_name\<close> are defined in
  \<^verbatim>\<open>trulens.experimental.otel_tracing.core.instrument\<close>, which is not among the sources
  (their unit test is). The definitions of this section follow sections 3, 4.2, 4.3 and
  6 of the specification.
\<close>

text \<open>
  Modelled from the spec: a callable as the resolver sees it. The name is made of the
  module that declares the underlying function object, the enclosing class when the
  callable is bound to one, and the qualified function path with its markers for inner
  functions and lambdas. The module of a wrapper around the callable and the address of
  the object are there as well, and the resolver reads neither.
\<close>

record callable_object =
  declaring_module :: string
  enclosing_class :: "string option"
  function_path :: string
  wrapper_module :: string
  object_address :: nat

text \<open>
  Modelled from the spec: \<^verbatim>\<open>resolveName\<close> (\<^verbatim>\<open>_get_func_name\<close>), section 4.3:
  \<^verbatim>\<open><module-or-package-path>.<enclosing-class-if-bound>.<qualified-function-path>\<close>.
\<close>

definition get_func_name :: "callable_object \<Rightarrow> string" where
  "get_func_name func =
     declaring_module func @ ''.''
       @ (case enclosing_class func of None \<Rightarrow> [] | Some c \<Rightarrow> c @ ''.'')
       @ function_path func"













text \<open>
  Modelled from the spec: a span (section 3) with its name, kind, attributes and status;
  the value of the kind \<^verbatim>\<open>UNKNOWN\<close> as a sub-scope of attribute keys is
  \<^verbatim>\<open>unknown\<close>, as in the scenarios of section 8.
\<close>

datatype span_status = StatusOK | StatusERROR string

record span =
  span_name :: string
  span_kind :: SpanType
  span_attributes :: "(string \<times> pyvalue) list"
  span_status :: span_status

fun SpanType_value :: "SpanType \<Rightarrow> string" where
  "SpanType_value UNKNOWN = ''unknown''"

text \<open>
  Modelled from the spec: the configuration of \<^verbatim>\<open>instrument\<close> (section 4.2). The
  extractor receives the result (\<^verbatim>\<open>None\<close> when the call raised), the error if any, the
  positional and the keyword arguments; it returns a mapping or raises.
\<close>

record instrument_config =
  spanName :: "string option"
  spanKind :: SpanType
  attributeExtractor ::
    "pyvalue \<Rightarrow> string option \<Rightarrow> pyvalue list \<Rightarrow> (string \<times> pyvalue) list
       \<Rightarrow> string + (string \<times> pyvalue) list"
  mustBeFirstWrapper :: bool

text \<open>
  Modelled from the spec: the spans handed to the in-process exporter of section 6, in
  the order they closed, and the lines logged when an extractor raises.
\<close>

record tracing =
  exported :: "span list"
  warnings :: "string list"

text \<open>
  Modelled from the spec: the keys of the extractor's mapping are namespaced as
  \<^verbatim>\<open><base-scope>.<sub-scope>.<key>\<close> (section 6) and merged into the span's attributes.
\<close>

definition namespaced ::
  "string \<Rightarrow> SpanType \<Rightarrow> (string \<times> pyvalue) list \<Rightarrow> (string \<times> pyvalue) list" where
  "namespaced base_scope k mapping =
     fold (\<lambda>(key, v). AList.update (base_scope @ ''.'' @ SpanType_value k @ ''.'' @ key) v)
       mapping []"

text \<open>
  Modelled from the spec: closing the span of a call once its outcome is known
  (section 4.2): the attributes are computed from the return value or the error, an
  extractor that raises is logged and leaves the span without attributes, the status is
  ERROR with the message when the call raised, and the closed span goes to the exporter.
\<close>

definition close_span ::
  "instrument_config \<Rightarrow> string \<Rightarrow> callable_object \<Rightarrow> string + pyvalue
     \<Rightarrow> pyvalue list \<Rightarrow> (string \<times> pyvalue) list \<Rightarrow> tracing \<Rightarrow> tracing" where
  "close_span config base_scope func outcome args kwargs t =
     (let extracted =
            attributeExtractor config
              (case outcome of Inl e \<Rightarrow> PyNone | Inr v \<Rightarrow> v)
              (case outcome of Inl e \<Rightarrow> Some e | Inr v \<Rightarrow> None)
              args kwargs;
          sp = \<lparr>span_name = (case spanName config of None \<Rightarrow> get_func_name func | Some n \<Rightarrow> n),
                span_kind = spanKind config,
                span_attributes =
                  (case extracted of
                     Inl e \<Rightarrow> []
                   | Inr mapping \<Rightarrow> namespaced base_scope (spanKind config) mapping),
                span_status = (case outcome of Inl e \<Rightarrow> StatusERROR e | Inr v \<Rightarrow> StatusOK)\<rparr>
      in t\<lparr>exported := exported t @ [sp],
           warnings := warnings t @ (case extracted of Inl e \<Rightarrow> [e] | Inr mapping \<Rightarrow> [])\<rparr>)"

text \<open>
  Modelled from the spec: the wrapper of a synchronous callable. The span opens, the
  callable runs, the span closes, and the outcome of the callable goes to the caller
  unchanged.
\<close>

definition instrument_sync ::
  "instrument_config \<Rightarrow> string \<Rightarrow> callable_object
     \<Rightarrow> (pyvalue list \<Rightarrow> (string \<times> pyvalue) list \<Rightarrow> string + pyvalue)
     \<Rightarrow> pyvalue list \<Rightarrow> (string \<times> pyvalue) list \<Rightarrow> tracing \<Rightarrow> (string + pyvalue) \<times> tracing" where
  "instrument_sync config base_scope func body args kwargs t =
     (let outcome = body args kwargs
      in (outcome, close_span config base_scope func outcome args kwargs t))"

text \<open>
  Modelled from the spec: an asynchronous callable returns a coroutine, which returns,
  raises, or suspends and goes on as another coroutine when it is resumed. The wrapper
  keeps the span open over every suspension and closes it when the coroutine completes.
\<close>

datatype coroutine = Return pyvalue | Raise string | Await coroutine

fun await_span ::
  "instrument_config \<Rightarrow> string \<Rightarrow> callable_object \<Rightarrow> pyvalue list \<Rightarrow> (string \<times> pyvalue) list
     \<Rightarrow> coroutine \<Rightarrow> tracing \<Rightarrow> (string + pyvalue) \<times> tracing" where
  "await_span config base_scope func args kwargs (Return v) t =
     (Inr v, close_span config base_scope func (Inr v) args kwargs t)"
| "await_span config base_scope func args kwargs (Raise e) t =
     (Inl e, close_span config base_scope func (Inl e) args kwargs t)"
| "await_span config base_scope func args kwargs (Await rest) t =
     await_span config base_scope func args kwargs rest t"

definition instrument_async ::
  "instrument_config \<Rightarrow> string \<Rightarrow> callable_object
     \<Rightarrow> (pyvalue list \<Rightarrow> (string \<times> pyvalue) list \<Rightarrow> coroutine)
     \<Rightarrow> pyvalue list \<Rightarrow> (string \<times> pyvalue) list \<Rightarrow> tracing \<Rightarrow> (string + pyvalue) \<times> tracing" where
  "instrument_async config base_scope func body args kwargs t =
     await_span config base_scope func args kwargs (body args kwargs) t"

text \<open>A coroutine that suspends a number of times and then returns.\<close>

fun suspended :: "nat \<Rightarrow> pyvalue \<Rightarrow> coroutine" where
  "suspended 0 v = Return v"
| "suspended (Suc n) v = Await (suspended n v)"

section \<open>Definitions used in the statements\<close>

subsection \<open>Outcomes and registrations\<close>

fun raises_ValueError :: "error + 'a \<Rightarrow> bool" where
  "raises_ValueError (Inl (ValueError msg)) = True"
| "raises_ValueError (Inl (ImportError msg)) = False"
| "raises_ValueError (Inl (OtherException msg)) = False"
| "raises_ValueError (Inr v) = False"








subsection \<open>Example states\<close>

text \<open>
  A process in which no tracer provider has been set; one in which another subsystem
  has installed a provider that is not the SDK's; one in which the application has
  installed an SDK provider of its own, for a service called \<^verbatim>\<open>checkout\<close>.
\<close>

definition fresh_process :: "otel_globals process" where
  "fresh_process =
     \<lparr>heap = [OtherTracerProvider ''ProxyTracerProvider'', OtherTracerProvider ''NoOpTracerProvider''],
      trace_globals = \<lparr>TRACER_PROVIDER = None, PROXY_TRACER_PROVIDER = 0\<rparr>,
      logged = []\<rparr>"

definition foreign_process :: "otel_globals process" where
  "foreign_process =
     \<lparr>heap = [OtherTracerProvider ''NoOpTracerProvider'', OtherTracerProvider ''ProxyTracerProvider''],
      trace_globals = \<lparr>TRACER_PROVIDER = Some 0, PROXY_TRACER_PROVIDER = 1\<rparr>,
      logged = []\<rparr>"

definition configured_process :: "otel_globals process" where
  "configured_process =
     \<lparr>heap = [TracerProvider [(''service.name'', ''checkout'')] [],
              OtherTracerProvider ''ProxyTracerProvider''],
      trace_globals = \<lparr>TRACER_PROVIDER = Some 0, PROXY_TRACER_PROVIDER = 1\<rparr>,
      logged = []\<rparr>"

definition new_session :: TruSession where
  "new_session =
     \<lparr>experimental_feature_flags = (\<lambda>flag. None),
      experimental_frozen = (\<lambda>flag. False),
      experimental_otel_exporter = None,
      experimental_tracer_provider = None,
      experimental_otel_span_processor = None\<rparr>"


definition bare_environment :: "(nat, nat registration list) environment" where
  "bare_environment =
     \<lparr>import_result = (\<lambda>name. RaisesImportError),
      module_dir = (\<lambda>name. []),
      BASE_SCOPE = ''trulens'',
      handle_response = (\<lambda>computer ret. Inr []),
      instrument_method = (\<lambda>r table. Inr (table @ [r]))\<rparr>"


subsection \<open>The unit test's callables (tests/unit/test_otel_instrument.py)\<close>

text \<open>
  The decorator of lines 46 to 50 and 95 to 99: no span name, the default kind, and the
  extractor \<^verbatim>\<open>lambda ret, exception, *args, **kwargs: {"best_baby": ret}\<close>.
\<close>

definition best_baby_config :: instrument_config where
  "best_baby_config =
     \<lparr>spanName = None,
      spanKind = UNKNOWN,
      attributeExtractor = (\<lambda>ret exception args kwargs. Inr [(''best_baby'', ret)]),
      mustBeFirstWrapper = False\<rparr>"

definition my_function_sync :: callable_object where
  "my_function_sync =
     \<lparr>declaring_module = ''tests.unit.test_otel_instrument'',
      enclosing_class = None,
      function_path = ''TestOtelInstrument.test_sync_non_generator_function.<locals>.my_function'',
      wrapper_module = ''trulens.experimental.otel_tracing.core.instrument'',
      object_address = 0\<rparr>"

definition my_function_async :: callable_object where
  "my_function_async =
     \<lparr>declaring_module = ''tests.unit.test_otel_instrument'',
      enclosing_class = None,
      function_path = ''TestOtelInstrument.test_async_non_generator_function.<locals>.my_function'',
      wrapper_module = ''trulens.experimental.otel_tracing.core.instrument'',
      object_address = 0\<rparr>"


definition no_spans :: tracing where
  "no_spans = \<lparr>exported = [], warnings = []\<rparr>"

section \<open>Object types: results\<close>

lemma py_eq_member_string:
  "py_eq (PyMember m) key = (str_of key = Some (ObjectType_value m))"
  by (cases key) (auto simp: py_eq_def)

text \<open>
  Claim C9. \<^verbatim>\<open>ObjectType.is_valid_object(key)\<close> is true exactly when \<^verbatim>\<open>key\<close> equals the
  string \<^verbatim>\<open>"EXTERNAL AGENT"\<close>, the value of the only declared member: it is Python's
  comparison of \<^verbatim>\<open>key\<close> with that string, a string key is accepted exactly when it is
  that string, the member itself is accepted, and \<^verbatim>\<open>None\<close>, booleans and integers are
  rejected.
\<close>

theorem is_valid_object_iff:
  "is_valid_object key = py_eq key (PyStr ''EXTERNAL AGENT'')
   \<and> is_valid_object key = (str_of key = Some ''EXTERNAL AGENT'')
   \<and> is_valid_object (PyStr s) = (s = ''EXTERNAL AGENT'')
   \<and> is_valid_object (PyMember EXTERNAL_AGENT)
   \<and> \<not> is_valid_object PyNone
   \<and> \<not> is_valid_object (PyBool b)
   \<and> \<not> is_valid_object (PyInt i)"
proof -
  have scan: "is_valid_object k = (str_of k = Some ''EXTERNAL AGENT'')" for k
    by (simp add: is_valid_object_def ObjectType_members_def py_eq_member_string)
  have cmp: "py_eq k (PyStr ''EXTERNAL AGENT'') = (str_of k = Some ''EXTERNAL AGENT'')" for k
    by (cases k) (auto simp: py_eq_def)
  show ?thesis
    by (simp add: scan cmp eq_commute [of s])
qed

section \<open>Tracer provider set-up: results\<close>

lemma set_up_tracer_provider_unfold:
  "set_up_tracer_provider trace p =
     (let h = heap p @ [TracerProvider [(''service.name'', ''trulens'')] []];
          g = set_tracer_provider trace (length (heap p)) (trace_globals p);
          r = get_tracer_provider trace g
      in (if isinstance_TracerProvider h r then Inr r
          else Inl (ValueError ''Received a TracerProvider of an unexpected type!''),
          p\<lparr>heap := h, trace_globals := g\<rparr>))"
  by (simp add: set_up_tracer_provider_def new_object_def Let_def Resource_create_def
      TRULENS_SERVICE_NAME_def)

lemma isinstance_TracerProvider_append:
  "r < length h \<Longrightarrow> isinstance_TracerProvider (h @ [ob]) r = isinstance_TracerProvider h r"
  by (simp add: isinstance_TracerProvider_def nth_append)

lemma isinstance_TracerProvider_new:
  "isinstance_TracerProvider (h @ [TracerProvider res sps]) (length h)"
  by (simp add: isinstance_TracerProvider_def)

text \<open>With the OpenTelemetry API: the call made while no provider is set.\<close>

lemma otel_first_call:
  "TRACER_PROVIDER (trace_globals p) = None \<Longrightarrow>
   set_up_tracer_provider opentelemetry_trace p =
     (Inr (length (heap p)),
      p\<lparr>heap := heap p @ [TracerProvider [(''service.name'', ''trulens'')] []],
        trace_globals := (trace_globals p)\<lparr>TRACER_PROVIDER := Some (length (heap p))\<rparr>\<rparr>)"
  by (simp add: set_up_tracer_provider_unfold opentelemetry_trace_def Let_def
      otel_set_tracer_provider_def otel_get_tracer_provider_def isinstance_TracerProvider_new)

text \<open>With the OpenTelemetry API: the call made while a provider is set.\<close>

lemma otel_later_call:
  "TRACER_PROVIDER (trace_globals p) = Some r \<Longrightarrow> r < length (heap p) \<Longrightarrow>
   set_up_tracer_provider opentelemetry_trace p =
     (if isinstance_TracerProvider (heap p) r then Inr r
      else Inl (ValueError ''Received a TracerProvider of an unexpected type!''),
      p\<lparr>heap := heap p @ [TracerProvider [(''service.name'', ''trulens'')] []]\<rparr>)"
  by (simp add: set_up_tracer_provider_unfold opentelemetry_trace_def Let_def
      otel_set_tracer_provider_def otel_get_tracer_provider_def isinstance_TracerProvider_append)

lemma set_up_tracer_provider_fails_iff:
  "(fst (set_up_tracer_provider trace q)
      = Inl (ValueError ''Received a TracerProvider of an unexpected type!''))
   = (\<not> isinstance_TracerProvider (heap (snd (set_up_tracer_provider trace q)))
         (get_tracer_provider trace (trace_globals (snd (set_up_tracer_provider trace q)))))"
  by (simp add: set_up_tracer_provider_unfold Let_def)

lemma set_up_tracer_provider_result:
  "fst (set_up_tracer_provider trace p) = Inr r \<Longrightarrow>
      r = get_tracer_provider trace (trace_globals (snd (set_up_tracer_provider trace p)))
      \<and> isinstance_TracerProvider (heap (snd (set_up_tracer_provider trace p))) r
      \<and> heap (snd (set_up_tracer_provider trace p)) ! length (heap p)
          = TracerProvider [(''service.name'', ''trulens'')] []"
  by (auto simp add: set_up_tracer_provider_unfold Let_def split: if_splits)

lemma set_up_tracer_provider_outcome:
  "raises_ValueError (fst (set_up_tracer_provider trace p)) \<or>
   (\<exists>r. fst (set_up_tracer_provider trace p) = Inr r)"
  by (simp add: set_up_tracer_provider_unfold Let_def)

lemma fresh_process_facts:
  "TRACER_PROVIDER (trace_globals fresh_process) = None"
  "length (heap fresh_process) = 2"
  by (simp_all add: fresh_process_def)

lemma configured_process_facts:
  "TRACER_PROVIDER (trace_globals configured_process) = Some 0"
  "0 < length (heap configured_process)"
  "isinstance_TracerProvider (heap configured_process) 0"
  "length (heap configured_process) = 2"
  "heap configured_process ! 0 = TracerProvider [(''service.name'', ''checkout'')] []"
  by (simp_all add: configured_process_def isinstance_TracerProvider_def)

text \<open>
  Claim C4. \<^verbatim>\<open>_set_up_tracer_provider\<close> fails when a provider installed earlier as the
  global tracer provider is not the SDK's \<^verbatim>\<open>TracerProvider\<close>, and the failure goes to
  the caller at once, with no second attempt. The exception the code raises is
  \<^verbatim>\<open>ValueError("Received a TracerProvider of an unexpected type!")\<close>; it is the error the
  specification calls ConfigurationError. With the OpenTelemetry API, when the global
  provider \<open>r\<close> is an object that is not an SDK provider, the call returns this error
  and leaves a process that differs from the one before only by the provider object it
  created: the global provider is untouched and nothing was tried again. For any
  behaviour of the API the call fails with this error exactly when the provider read
  back after \<^verbatim>\<open>set_tracer_provider\<close> is not an SDK provider.
\<close>

theorem set_up_tracer_provider_incompatible:
  assumes "TRACER_PROVIDER (trace_globals p) = Some r"
    and "r < length (heap p)"
    and "\<not> isinstance_TracerProvider (heap p) r"
  shows "set_up_tracer_provider opentelemetry_trace p =
           (Inl (ValueError ''Received a TracerProvider of an unexpected type!''),
            p\<lparr>heap := heap p @ [TracerProvider [(''service.name'', ''trulens'')] []]\<rparr>)
         \<and> (fst (set_up_tracer_provider trace q)
               = Inl (ValueError ''Received a TracerProvider of an unexpected type!''))
           = (\<not> isinstance_TracerProvider (heap (snd (set_up_tracer_provider trace q)))
                  (get_tracer_provider trace (trace_globals (snd (set_up_tracer_provider trace q)))))"
proof (rule conjI)
  show "set_up_tracer_provider opentelemetry_trace p =
           (Inl (ValueError ''Received a TracerProvider of an unexpected type!''),
            p\<lparr>heap := heap p @ [TracerProvider [(''service.name'', ''trulens'')] []]\<rparr>)"
    using assms by (simp add: otel_later_call)
qed (rule set_up_tracer_provider_fails_iff)

theorem set_up_tracer_provider_incompatible_witness:
  "set_up_tracer_provider opentelemetry_trace foreign_process =
     (Inl (ValueError ''Received a TracerProvider of an unexpected type!''),
      foreign_process\<lparr>heap := heap foreign_process @ [TracerProvider [(''service.name'', ''trulens'')] []]\<rparr>)"
proof -
  have a: "TRACER_PROVIDER (trace_globals foreign_process) = Some 0"
    by (simp add: foreign_process_def)
  have b: "0 < length (heap foreign_process)"
    by (simp add: foreign_process_def)
  have c: "\<not> isinstance_TracerProvider (heap foreign_process) 0"
    by (simp add: foreign_process_def isinstance_TracerProvider_def)
  from set_up_tracer_provider_incompatible [OF a b c] show ?thesis by (rule conjunct1)
qed

text \<open>
  Claim C5, as amended. On the path that does not fail, \<^verbatim>\<open>_set_up_tracer_provider\<close>
  has created a provider whose resource has \<^verbatim>\<open>service.name\<close> \<^verbatim>\<open>trulens\<close>, has
  handed it to \<^verbatim>\<open>set_tracer_provider\<close>, and returns the provider that
  \<^verbatim>\<open>get_tracer_provider\<close> then reports: the returned provider is the process-wide global
  provider and an SDK \<^verbatim>\<open>TracerProvider\<close>. When no global provider had been set before
  the call, the OpenTelemetry API installs the created provider, so the returned provider
  is the one just created, owns the \<^verbatim>\<open>trulens\<close> resource and is the global provider.
  (The claim says so for every path that does not fail; when an SDK provider was already
  installed, the API keeps it and the call returns that one; see the counterexample.)
\<close>

theorem set_up_tracer_provider_returns_global:
  "(fst (set_up_tracer_provider trace p) = Inr r \<longrightarrow>
      r = get_tracer_provider trace (trace_globals (snd (set_up_tracer_provider trace p)))
      \<and> isinstance_TracerProvider (heap (snd (set_up_tracer_provider trace p))) r
      \<and> heap (snd (set_up_tracer_provider trace p)) ! length (heap p)
          = TracerProvider [(''service.name'', ''trulens'')] [])
   \<and> (TRACER_PROVIDER (trace_globals q) = None \<longrightarrow>
        fst (set_up_tracer_provider opentelemetry_trace q) = Inr (length (heap q))
        \<and> heap (snd (set_up_tracer_provider opentelemetry_trace q)) ! length (heap q)
            = TracerProvider [(''service.name'', ''trulens'')] []
        \<and> TRACER_PROVIDER (trace_globals (snd (set_up_tracer_provider opentelemetry_trace q)))
            = Some (length (heap q)))"
proof (intro conjI impI)
  assume "TRACER_PROVIDER (trace_globals q) = None"
  note c = otel_first_call [OF this]
  show "fst (set_up_tracer_provider opentelemetry_trace q) = Inr (length (heap q))"
    by (simp add: c)
  show "heap (snd (set_up_tracer_provider opentelemetry_trace q)) ! length (heap q)
            = TracerProvider [(''service.name'', ''trulens'')] []"
    by (simp add: c)
  show "TRACER_PROVIDER (trace_globals (snd (set_up_tracer_provider opentelemetry_trace q)))
            = Some (length (heap q))"
    by (simp add: c)
qed (simp_all add: set_up_tracer_provider_result)

theorem set_up_tracer_provider_returns_global_witness:
  "fst (set_up_tracer_provider opentelemetry_trace fresh_process) = Inr 2
   \<and> get_tracer_provider opentelemetry_trace
        (trace_globals (snd (set_up_tracer_provider opentelemetry_trace fresh_process))) = 2
   \<and> isinstance_TracerProvider (heap (snd (set_up_tracer_provider opentelemetry_trace fresh_process))) 2
   \<and> heap (snd (set_up_tracer_provider opentelemetry_trace fresh_process)) ! 2
        = TracerProvider [(''service.name'', ''trulens'')] []
   \<and> TRACER_PROVIDER (trace_globals fresh_process) = None
   \<and> TRACER_PROVIDER (trace_globals (snd (set_up_tracer_provider opentelemetry_trace fresh_process)))
        = Some 2"
proof -
  note n = fresh_process_facts(1)
  note l = fresh_process_facts(2)
  note t = set_up_tracer_provider_returns_global [of opentelemetry_trace fresh_process 2 fresh_process]
  have r: "fst (set_up_tracer_provider opentelemetry_trace fresh_process) = Inr 2"
    using t n l by simp
  from t r n l show ?thesis by simp
qed

text \<open>
  The claim C5 as it is written fails where the application has already installed an
  SDK provider of its own: the call does not fail, and the provider it returns is the
  application's (reference 0, service \<^verbatim>\<open>checkout\<close>), not the one the call created
  (which got the next free reference, the length of the heap before the call); the
  global provider is still the application's.
\<close>

theorem set_up_tracer_provider_fresh_counterexample:
  "fst (set_up_tracer_provider opentelemetry_trace configured_process) = Inr 0
   \<and> 0 \<noteq> length (heap configured_process)
   \<and> heap (snd (set_up_tracer_provider opentelemetry_trace configured_process)) ! 0
        = TracerProvider [(''service.name'', ''checkout'')] []
   \<and> TRACER_PROVIDER (trace_globals (snd (set_up_tracer_provider opentelemetry_trace configured_process)))
        = Some 0"
  using configured_process_facts(2)
  by (simp add: otel_later_call [OF configured_process_facts(1) configured_process_facts(2)]
      configured_process_facts nth_append)

text \<open>
  Claim C6, as amended. A second call of \<^verbatim>\<open>_set_up_tracer_provider\<close>, made while an
  SDK provider is installed, creates a new provider, but the OpenTelemetry API sets its
  global provider once and keeps the installed one: the call returns the provider that
  was installed before, the global provider is unchanged, the provider object (with the
  span processors it has) is unchanged, and the new provider is left unused. So it is
  for any installed SDK provider \<open>r\<close>, and so it is for the second of two calls made
  one after the other in a process that had no provider: both return the provider the
  first one created.
\<close>

theorem set_up_tracer_provider_second_call:
  "(TRACER_PROVIDER (trace_globals p) = Some r \<and> r < length (heap p)
      \<and> isinstance_TracerProvider (heap p) r \<longrightarrow>
      set_up_tracer_provider opentelemetry_trace p =
        (Inr r, p\<lparr>heap := heap p @ [TracerProvider [(''service.name'', ''trulens'')] []]\<rparr>)
      \<and> r \<noteq> length (heap p)
      \<and> heap (snd (set_up_tracer_provider opentelemetry_trace p)) ! r = heap p ! r)
   \<and> (TRACER_PROVIDER (trace_globals q) = None \<longrightarrow>
        fst (set_up_tracer_provider opentelemetry_trace q) = Inr (length (heap q))
        \<and> set_up_tracer_provider opentelemetry_trace (snd (set_up_tracer_provider opentelemetry_trace q)) =
            (Inr (length (heap q)),
             (snd (set_up_tracer_provider opentelemetry_trace q))
               \<lparr>heap := heap (snd (set_up_tracer_provider opentelemetry_trace q))
                          @ [TracerProvider [(''service.name'', ''trulens'')] []]\<rparr>))"
proof (intro conjI impI)
  assume a: "TRACER_PROVIDER (trace_globals p) = Some r \<and> r < length (heap p)
      \<and> isinstance_TracerProvider (heap p) r"
  then have c: "set_up_tracer_provider opentelemetry_trace p =
        (Inr r, p\<lparr>heap := heap p @ [TracerProvider [(''service.name'', ''trulens'')] []]\<rparr>)"
    by (simp add: otel_later_call)
  show "set_up_tracer_provider opentelemetry_trace p =
        (Inr r, p\<lparr>heap := heap p @ [TracerProvider [(''service.name'', ''trulens'')] []]\<rparr>)"
    by (rule c)
  show "r \<noteq> length (heap p)" using a by simp
  show "heap (snd (set_up_tracer_provider opentelemetry_trace p)) ! r = heap p ! r"
    using a by (simp add: c nth_append)
next
  assume n: "TRACER_PROVIDER (trace_globals q) = None"
  note c = otel_first_call [OF n]
  show "fst (set_up_tracer_provider opentelemetry_trace q) = Inr (length (heap q))"
    by (simp add: c)
  let ?q1 = "snd (set_up_tracer_provider opentelemetry_trace q)"
  have g: "TRACER_PROVIDER (trace_globals ?q1) = Some (length (heap q))"
    by (simp add: c)
  have l: "length (heap q) < length (heap ?q1)"
    by (simp add: c)
  have i: "isinstance_TracerProvider (heap ?q1) (length (heap q))"
    by (simp add: c isinstance_TracerProvider_new)
  show "set_up_tracer_provider opentelemetry_trace ?q1 =
            (Inr (length (heap q)),
             ?q1\<lparr>heap := heap ?q1 @ [TracerProvider [(''service.name'', ''trulens'')] []]\<rparr>)"
    by (simp add: otel_later_call [OF g l] i)
qed

theorem set_up_tracer_provider_second_call_witness:
  "TRACER_PROVIDER (trace_globals configured_process) = Some 0
   \<and> 0 < length (heap configured_process)
   \<and> isinstance_TracerProvider (heap configured_process) 0
   \<and> set_up_tracer_provider opentelemetry_trace configured_process =
        (Inr 0, configured_process\<lparr>heap := heap configured_process
                                     @ [TracerProvider [(''service.name'', ''trulens'')] []]\<rparr>)
   \<and> TRACER_PROVIDER (trace_globals fresh_process) = None
   \<and> fst (set_up_tracer_provider opentelemetry_trace fresh_process) = Inr 2
   \<and> fst (set_up_tracer_provider opentelemetry_trace
            (snd (set_up_tracer_provider opentelemetry_trace fresh_process))) = Inr 2"
  using set_up_tracer_provider_second_call [of configured_process 0 fresh_process]
  by (simp add: fresh_process_facts configured_process_facts)

text \<open>
  The claim C6 as it is written fails on two calls in a row in a process that had no
  provider: the first call creates and installs the provider with reference 2; the
  second call creates the provider with reference 3 and returns the one with reference
  2, which is still the global provider.
\<close>

theorem set_up_tracer_provider_second_call_counterexample:
  "fst (set_up_tracer_provider opentelemetry_trace fresh_process) = Inr 2
   \<and> length (heap (snd (set_up_tracer_provider opentelemetry_trace fresh_process))) = 3
   \<and> fst (set_up_tracer_provider opentelemetry_trace
            (snd (set_up_tracer_provider opentelemetry_trace fresh_process))) = Inr 2
   \<and> TRACER_PROVIDER (trace_globals (snd (set_up_tracer_provider opentelemetry_trace
            (snd (set_up_tracer_provider opentelemetry_trace fresh_process))))) = Some 2"
proof -
  note c = otel_first_call [OF fresh_process_facts(1)]
  let ?q1 = "snd (set_up_tracer_provider opentelemetry_trace fresh_process)"
  have g: "TRACER_PROVIDER (trace_globals ?q1) = Some 2"
    by (simp add: c fresh_process_facts)
  have l: "2 < length (heap ?q1)"
    by (simp add: c fresh_process_facts)
  have i: "isinstance_TracerProvider (heap ?q1) 2"
    using isinstance_TracerProvider_new [of "heap fresh_process"]
    by (simp add: c fresh_process_facts)
  show ?thesis
    by (simp add: otel_later_call [OF g l] i g) (simp add: c fresh_process_facts)
qed

section \<open>Exporter set-up: results\<close>

lemma set_up_otel_exporter_invalid_unfold:
  assumes "py_bool exporter" and "\<not> isinstance_SpanExporter exporter"
  shows "set_up_otel_exporter trace self connector exporter p =
     (case set_up_tracer_provider trace (logger_info (exporter_set_message exporter) p) of
        (Inl e, p2) \<Rightarrow>
          (Inl e,
           (experimental_feature OTEL_TRACING True True self)
             \<lparr>experimental_otel_exporter := Some exporter\<rparr>, p2)
      | (Inr tracer_provider, p2) \<Rightarrow>
          (Inl (ValueError ''Provided exporter must be an OpenTelemetry SpanExporter''),
           (experimental_feature OTEL_TRACING True True self)
             \<lparr>experimental_otel_exporter := Some exporter,
              experimental_tracer_provider := Some tracer_provider\<rparr>, p2))"
  using assms by (simp add: set_up_otel_exporter_def Let_def split: prod.splits sum.splits)

lemma experimental_feature_sets:
  "experimental_feature_flags (experimental_feature flag v True self) flag = Some v"
  "experimental_frozen (experimental_feature flag v True self) flag"
  "experimental_otel_exporter (experimental_feature flag v fr self) = experimental_otel_exporter self"
  "experimental_tracer_provider (experimental_feature flag v fr self) = experimental_tracer_provider self"
  "experimental_otel_span_processor (experimental_feature flag v fr self) = experimental_otel_span_processor self"
  by (simp_all add: experimental_feature_def)

text \<open>
  Claim C10, as amended. \<^verbatim>\<open>_set_up_otel_exporter\<close> is not atomic on error: for every
  exporter argument that is true in a condition and is not a \<^verbatim>\<open>SpanExporter\<close>, the
  call raises \<^verbatim>\<open>ValueError\<close>, and by then it has set the session's
  \<^verbatim>\<open>OTEL_TRACING\<close> flag to true and frozen it, has stored the invalid exporter in the
  session, and has run \<^verbatim>\<open>_set_up_tracer_provider\<close>, whose effect on the process stays;
  no span processor was made. When no global tracer provider had been set before, the
  error is the exporter check's, a new global tracer provider is installed and the
  session holds it. (The claim says so for every argument that is not \<^verbatim>\<open>None\<close>; an
  argument that is false in a condition, such as the empty string, is replaced by the
  default exporter; see the counterexample.)
\<close>

theorem set_up_otel_exporter_invalid:
  assumes "py_bool exporter" and "\<not> isinstance_SpanExporter exporter"
  shows "raises_ValueError (fst (set_up_otel_exporter trace self connector exporter p))
    \<and> experimental_feature_flags (fst (snd (set_up_otel_exporter trace self connector exporter p)))
         OTEL_TRACING = Some True
    \<and> experimental_frozen (fst (snd (set_up_otel_exporter trace self connector exporter p)))
         OTEL_TRACING
    \<and> experimental_otel_exporter (fst (snd (set_up_otel_exporter trace self connector exporter p)))
         = Some exporter
    \<and> experimental_otel_span_processor (fst (snd (set_up_otel_exporter trace self connector exporter p)))
         = experimental_otel_span_processor self
    \<and> snd (snd (set_up_otel_exporter trace self connector exporter p))
         = snd (set_up_tracer_provider trace (logger_info (exporter_set_message exporter) p))
    \<and> (TRACER_PROVIDER (trace_globals q) = None \<longrightarrow>
         fst (set_up_otel_exporter opentelemetry_trace self connector exporter q)
           = Inl (ValueError ''Provided exporter must be an OpenTelemetry SpanExporter'')
         \<and> TRACER_PROVIDER (trace_globals
              (snd (snd (set_up_otel_exporter opentelemetry_trace self connector exporter q))))
             = Some (length (heap q))
         \<and> experimental_tracer_provider
              (fst (snd (set_up_otel_exporter opentelemetry_trace self connector exporter q)))
             = Some (length (heap q)))"
proof -
  note u = set_up_otel_exporter_invalid_unfold [OF assms]
  let ?p1 = "logger_info (exporter_set_message exporter) p"
  obtain res p2 where s: "set_up_tracer_provider trace ?p1 = (res, p2)"
    by (cases "set_up_tracer_provider trace ?p1")
  have e: "raises_ValueError res \<or> (\<exists>r. res = Inr r)"
    using set_up_tracer_provider_outcome [of trace ?p1] by (simp add: s)
  have general:
    "raises_ValueError (fst (set_up_otel_exporter trace self connector exporter p))
    \<and> experimental_feature_flags (fst (snd (set_up_otel_exporter trace self connector exporter p)))
         OTEL_TRACING = Some True
    \<and> experimental_frozen (fst (snd (set_up_otel_exporter trace self connector exporter p)))
         OTEL_TRACING
    \<and> experimental_otel_exporter (fst (snd (set_up_otel_exporter trace self connector exporter p)))
         = Some exporter
    \<and> experimental_otel_span_processor (fst (snd (set_up_otel_exporter trace self connector exporter p)))
         = experimental_otel_span_processor self
    \<and> snd (snd (set_up_otel_exporter trace self connector exporter p))
         = snd (set_up_tracer_provider trace ?p1)"
  proof (cases res)
    case (Inl err)
    with e show ?thesis by (cases err) (simp_all add: u s experimental_feature_sets)
  next
    case (Inr r)
    then show ?thesis by (simp add: u s experimental_feature_sets)
  qed
  have first: "TRACER_PROVIDER (trace_globals q) = None \<longrightarrow>
         fst (set_up_otel_exporter opentelemetry_trace self connector exporter q)
           = Inl (ValueError ''Provided exporter must be an OpenTelemetry SpanExporter'')
         \<and> TRACER_PROVIDER (trace_globals
              (snd (snd (set_up_otel_exporter opentelemetry_trace self connector exporter q))))
             = Some (length (heap q))
         \<and> experimental_tracer_provider
              (fst (snd (set_up_otel_exporter opentelemetry_trace self connector exporter q)))
             = Some (length (heap q))"
  proof
    assume n: "TRACER_PROVIDER (trace_globals q) = None"
    let ?q1 = "logger_info (exporter_set_message exporter) q"
    have "TRACER_PROVIDER (trace_globals ?q1) = None"
      using n by (simp add: logger_info_def)
    note c = otel_first_call [OF this]
    have h: "heap ?q1 = heap q" by (simp add: logger_info_def)
    show "fst (set_up_otel_exporter opentelemetry_trace self connector exporter q)
           = Inl (ValueError ''Provided exporter must be an OpenTelemetry SpanExporter'')
         \<and> TRACER_PROVIDER (trace_globals
              (snd (snd (set_up_otel_exporter opentelemetry_trace self connector exporter q))))
             = Some (length (heap q))
         \<and> experimental_tracer_provider
              (fst (snd (set_up_otel_exporter opentelemetry_trace self connector exporter q)))
             = Some (length (heap q))"
      by (simp add: set_up_otel_exporter_invalid_unfold [OF assms] c h)
  qed
  from general first show ?thesis by simp
qed

theorem set_up_otel_exporter_invalid_witness:
  "py_bool (Instance ''dict'' False True)
   \<and> \<not> isinstance_SpanExporter (Instance ''dict'' False True)
   \<and> TRACER_PROVIDER (trace_globals fresh_process) = None
   \<and> fst (set_up_otel_exporter opentelemetry_trace new_session (DBConnector ''db'')
            (Instance ''dict'' False True) fresh_process)
       = Inl (ValueError ''Provided exporter must be an OpenTelemetry SpanExporter'')
   \<and> experimental_feature_flags
        (fst (snd (set_up_otel_exporter opentelemetry_trace new_session (DBConnector ''db'')
            (Instance ''dict'' False True) fresh_process))) OTEL_TRACING = Some True
   \<and> experimental_frozen
        (fst (snd (set_up_otel_exporter opentelemetry_trace new_session (DBConnector ''db'')
            (Instance ''dict'' False True) fresh_process))) OTEL_TRACING
   \<and> experimental_otel_exporter
        (fst (snd (set_up_otel_exporter opentelemetry_trace new_session (DBConnector ''db'')
            (Instance ''dict'' False True) fresh_process))) = Some (Instance ''dict'' False True)
   \<and> TRACER_PROVIDER (trace_globals
        (snd (snd (set_up_otel_exporter opentelemetry_trace new_session (DBConnector ''db'')
            (Instance ''dict'' False True) fresh_process)))) = Some 2"
proof -
  have a: "py_bool (Instance ''dict'' False True)" by simp
  have b: "\<not> isinstance_SpanExporter (Instance ''dict'' False True)" by simp
  note n = fresh_process_facts(1)
  note t = set_up_otel_exporter_invalid [OF a b, of opentelemetry_trace new_session
      "DBConnector ''db''" fresh_process fresh_process, unfolded fresh_process_facts(2)]
  from a b n t show ?thesis by blast
qed

text \<open>
  The claim C10 as it is written fails for the empty string, which is not \<^verbatim>\<open>None\<close>
  and not a \<^verbatim>\<open>SpanExporter\<close>: \<^verbatim>\<open>if not exporter\<close> replaces it by the default
  exporter, the call returns without an error, and the session holds the default
  exporter, not the argument.
\<close>

theorem set_up_otel_exporter_falsy_counterexample:
  "fst (set_up_otel_exporter opentelemetry_trace new_session (DBConnector ''db'')
          (Instance ''str'' False False) fresh_process) = Inr ()
   \<and> experimental_otel_exporter
        (fst (snd (set_up_otel_exporter opentelemetry_trace new_session (DBConnector ''db'')
          (Instance ''str'' False False) fresh_process)))
       = Some (TruLensOTELSpanExporter (DBConnector ''db''))"
proof -
  have "TRACER_PROVIDER (trace_globals
          (logger_info (exporter_set_message (Instance ''str'' False False)) fresh_process)) = None"
    by (simp add: logger_info_def fresh_process_facts)
  note c = otel_first_call [OF this]
  show ?thesis
    by (simp add: set_up_otel_exporter_def Let_def c new_object_def split: prod.splits)
qed

section \<open>Cost tracking: results\<close>







lemma can_import_cases:
  "import_result env m = Imported \<Longrightarrow> can_import env m = Inr True"
  "import_result env m = RaisesImportError \<Longrightarrow> can_import env m = Inr False"
  "import_result env m = RaisesOther msg \<Longrightarrow> can_import env m = Inl (OtherException msg)"
  by (simp_all add: can_import_def import_module_def)

lemma can_import_False_iff:
  "(can_import env m = Inr False) = (import_result env m = RaisesImportError)"
  by (cases "import_result env m") (simp_all add: can_import_def import_module_def)




lemma cortex_skipped:
  "import_result env ''trulens.providers.cortex.endpoint'' = RaisesImportError \<Longrightarrow>
   track_costs_cortex env table = (Inr (), table)"
  unfolding track_costs_cortex_def
  by (simp only: can_import_cases(2) sum.case bool.case)

lemma openai_skipped:
  "import_result env ''trulens.providers.openai.endpoint'' = RaisesImportError \<Longrightarrow>
   track_costs_openai env table = (Inr (), table)"
  unfolding track_costs_openai_def
  by (simp only: can_import_cases(2) sum.case bool.case)







text \<open>
  Claim C8. The registration depends on a probe: \<^verbatim>\<open>_can_import\<close> returns false exactly
  when the import raises \<^verbatim>\<open>ImportError\<close>, and for a provider whose package does not
  import in this sense \<^verbatim>\<open>_track_costs\<close> registers nothing and raises nothing. When
  the Cortex probe fails, the first block leaves the registrations as they were without
  an error and the function does what its second block does; when the OpenAI probe
  fails, likewise with the blocks exchanged; when both fail, the function returns
  without an error and without a registration.
\<close>

theorem track_costs_skips:
  "(can_import env name = Inr False) = (import_result env name = RaisesImportError)
   \<and> (import_result env ''trulens.providers.cortex.endpoint'' = RaisesImportError \<longrightarrow>
        track_costs_cortex env table = (Inr (), table)
        \<and> track_costs env table = track_costs_openai env table)
   \<and> (import_result env ''trulens.providers.openai.endpoint'' = RaisesImportError \<longrightarrow>
        track_costs_openai env table = (Inr (), table)
        \<and> track_costs env table = track_costs_cortex env table)
   \<and> (import_result env ''trulens.providers.cortex.endpoint'' = RaisesImportError
        \<and> import_result env ''trulens.providers.openai.endpoint'' = RaisesImportError \<longrightarrow>
        track_costs env table = (Inr (), table))"
proof (intro conjI impI)
  show "(can_import env name = Inr False) = (import_result env name = RaisesImportError)"
    by (rule can_import_False_iff)
next
  assume a: "import_result env ''trulens.providers.cortex.endpoint'' = RaisesImportError"
  show "track_costs_cortex env table = (Inr (), table)"
    by (rule cortex_skipped [OF a])
  show "track_costs env table = track_costs_openai env table"
    by (simp add: track_costs_def cortex_skipped [OF a])
next
  assume a: "import_result env ''trulens.providers.openai.endpoint'' = RaisesImportError"
  show "track_costs_openai env table = (Inr (), table)"
    by (rule openai_skipped [OF a])
  show "track_costs env table = track_costs_cortex env table"
    by (cases "track_costs_cortex env table")
       (auto simp add: track_costs_def openai_skipped [OF a] split: sum.splits)
next
  assume a: "import_result env ''trulens.providers.cortex.endpoint'' = RaisesImportError
        \<and> import_result env ''trulens.providers.openai.endpoint'' = RaisesImportError"
  then show "track_costs env table = (Inr (), table)"
    by (simp add: track_costs_def cortex_skipped openai_skipped)
qed

theorem track_costs_skips_witness:
  "import_result bare_environment ''trulens.providers.cortex.endpoint'' = RaisesImportError
   \<and> import_result bare_environment ''trulens.providers.openai.endpoint'' = RaisesImportError
   \<and> can_import bare_environment ''trulens.providers.cortex.endpoint'' = Inr False
   \<and> track_costs_cortex bare_environment [] = (Inr (), [])
   \<and> track_costs_openai bare_environment [] = (Inr (), [])
   \<and> track_costs bare_environment [] = (Inr (), [])"
proof -
  have a: "import_result bare_environment ''trulens.providers.cortex.endpoint'' = RaisesImportError"
    by (simp add: bare_environment_def)
  have b: "import_result bare_environment ''trulens.providers.openai.endpoint'' = RaisesImportError"
    by (simp add: bare_environment_def)
  from track_costs_skips [of bare_environment "''trulens.providers.cortex.endpoint''" "[]"] a b
  show ?thesis by simp
qed

section \<open>Instrumentation wrapper and name resolver: results\<close>

lemma best_baby_close:
  "close_span best_baby_config ''trulens'' func (Inr v) args kwargs t =
     t\<lparr>exported := exported t @
          [\<lparr>span_name = get_func_name func, span_kind = UNKNOWN,
            span_attributes = [(''trulens.unknown.best_baby'', v)],
            span_status = StatusOK\<rparr>]\<rparr>"
  by (simp add: close_span_def best_baby_config_def namespaced_def)

lemma my_function_sync_name:
  "get_func_name my_function_sync =
     ''tests.unit.test_otel_instrument.TestOtelInstrument.test_sync_non_generator_function.<locals>.my_function''"
  by (simp add: get_func_name_def my_function_sync_def)

lemma my_function_async_name:
  "get_func_name my_function_async =
     ''tests.unit.test_otel_instrument.TestOtelInstrument.test_async_non_generator_function.<locals>.my_function''"
  by (simp add: get_func_name_def my_function_async_def)

text \<open>
  Claim C1. A synchronous function that returns \<^verbatim>\<open>"Kojikun"\<close>, wrapped with the
  extractor \<^verbatim>\<open>{"best_baby": ret}\<close> under the base scope \<^verbatim>\<open>trulens\<close>, leaves after one
  call exactly one more exported span; its name is the qualified name of the function
  and its attributes map \<^verbatim>\<open>trulens.unknown.best_baby\<close> to \<^verbatim>\<open>"Kojikun"\<close>; the caller
  gets \<^verbatim>\<open>"Kojikun"\<close>. For \<^verbatim>\<open>my_function\<close> of the unit test, with nothing exported
  before, the exporter holds the one span the test asserts.
\<close>

theorem instrument_sync_one_span:
  "instrument_sync best_baby_config ''trulens'' func (\<lambda>args kwargs. Inr (PyStr ''Kojikun'')) args kwargs t =
     (Inr (PyStr ''Kojikun''),
      t\<lparr>exported := exported t @
          [\<lparr>span_name = get_func_name func, span_kind = UNKNOWN,
            span_attributes = [(''trulens.unknown.best_baby'', PyStr ''Kojikun'')],
            span_status = StatusOK\<rparr>]\<rparr>)
   \<and> exported (snd (instrument_sync best_baby_config ''trulens'' my_function_sync
                      (\<lambda>args kwargs. Inr (PyStr ''Kojikun'')) [] [] no_spans)) =
       [\<lparr>span_name = ''tests.unit.test_otel_instrument.TestOtelInstrument.test_sync_non_generator_function.<locals>.my_function'',
         span_kind = UNKNOWN,
         span_attributes = [(''trulens.unknown.best_baby'', PyStr ''Kojikun'')],
         span_status = StatusOK\<rparr>]
   \<and> map_of (span_attributes (hd (exported (snd (instrument_sync best_baby_config ''trulens''
          my_function_sync (\<lambda>args kwargs. Inr (PyStr ''Kojikun'')) [] [] no_spans)))))
        ''trulens.unknown.best_baby'' = Some (PyStr ''Kojikun'')"
  by (simp add: instrument_sync_def Let_def best_baby_close my_function_sync_name no_spans_def)







lemma await_span_suspended:
  "await_span config base_scope func args kwargs (suspended n v) t =
     (Inr v, close_span config base_scope func (Inr v) args kwargs t)"
  by (induction n) simp_all

text \<open>
  Claim C3. The wrapper of an asynchronous function that suspends any number of times
  and then returns a value gives what the wrapper of a synchronous function returning
  that value gives, for any configuration, callable and earlier spans: the same
  returned value and the same one more exported span, with the same name and
  attributes. For the asynchronous \<^verbatim>\<open>my_function\<close> of the unit test, which awaits once
  and returns \<^verbatim>\<open>"Kojikun"\<close>, the exporter holds one span, named by the qualified name
  of that function, with \<^verbatim>\<open>trulens.unknown.best_baby\<close> equal to \<^verbatim>\<open>"Kojikun"\<close>.
\<close>

theorem instrument_async_same_span:
  "instrument_async config base_scope func (\<lambda>args kwargs. suspended n v) args kwargs t =
     instrument_sync config base_scope func (\<lambda>args kwargs. Inr v) args kwargs t
   \<and> instrument_async best_baby_config ''trulens'' my_function_async
        (\<lambda>args kwargs. Await (Return (PyStr ''Kojikun''))) [] [] no_spans =
       (Inr (PyStr ''Kojikun''),
        \<lparr>exported =
           [\<lparr>span_name = ''tests.unit.test_otel_instrument.TestOtelInstrument.test_async_non_generator_function.<locals>.my_function'',
             span_kind = UNKNOWN,
             span_attributes = [(''trulens.unknown.best_baby'', PyStr ''Kojikun'')],
             span_status = StatusOK\<rparr>],
         warnings = []\<rparr>)"
proof (rule conjI)
  show "instrument_async config base_scope func (\<lambda>args kwargs. suspended n v) args kwargs t =
     instrument_sync config base_scope func (\<lambda>args kwargs. Inr v) args kwargs t"
    by (simp add: instrument_async_def instrument_sync_def await_span_suspended Let_def)
  show "instrument_async best_baby_config ''trulens'' my_function_async
        (\<lambda>args kwargs. Await (Return (PyStr ''Kojikun''))) [] [] no_spans =
       (Inr (PyStr ''Kojikun''),
        \<lparr>exported =
           [\<lparr>span_name = ''tests.unit.test_otel_instrument.TestOtelInstrument.test_async_non_generator_function.<locals>.my_function'',
             span_kind = UNKNOWN,
             span_attributes = [(''trulens.unknown.best_baby'', PyStr ''Kojikun'')],
             span_status = StatusOK\<rparr>],
         warnings = []\<rparr>)"
    by (simp add: instrument_async_def best_baby_close my_function_async_name no_spans_def)
qed

end
